theory Spec2Isabelle
  imports Main "HOL-Library.AList"
begin

section \<open>Exceptions\<close>

text \<open>
  Every \<^verbatim>\<open>raise\<close> of the modelled Python is a value of this type; a function that can
  raise returns \<open>error + 'a\<close> with \<open>Inl\<close> carrying the exception.
\<close>

datatype error =
    KeyError
  | IndexError
  | ValueError
  | StopIteration
  | AttributeError
  | TypeError
  | SQLMeshError string
  | MacroEvalError string

section \<open>Model metadata: interval unit and normalized cron (sqlmesh/core/model.py)\<close>

datatype IntervalUnit = DAY | HOUR | MINUTE

text \<open>
  \<^verbatim>\<open>croniter\<close> is an external library. A schedule is the sequence of the values that
  successive calls of \<^verbatim>\<open>schedule.get_next()\<close> return (epoch seconds; cron fires on whole
  minutes, so the values are integral).
\<close>

type_synonym schedule = "nat \<Rightarrow> int"

text \<open>Python's \<^verbatim>\<open>min\<close> of an iterable: \<^verbatim>\<open>ValueError\<close> on an empty one.\<close>

definition py_min :: "int list \<Rightarrow> error + int" where
  "py_min xs = (case xs of [] \<Rightarrow> Inl ValueError | x # rest \<Rightarrow> Inr (fold min rest x))"

text \<open>
  \<^verbatim>\<open>
  schedule = croniter(self.cron)
  samples = [schedule.get_next() for _ in range(sample_size)]
  min_interval = min(b - a for a, b in zip(samples, samples[1:]))
  if min_interval >= 86400: return IntervalUnit.DAY
  elif min_interval >= 3600: return IntervalUnit.HOUR
  return IntervalUnit.MINUTE
  \<close>
\<close>

definition interval_unit :: "schedule \<Rightarrow> nat \<Rightarrow> error + IntervalUnit" where
  "interval_unit schedule sample_size =
     (let samples = map schedule [0..<sample_size] in
      case py_min (map (\<lambda>(a, b). b - a) (zip samples (tl samples))) of
        Inl e \<Rightarrow> Inl e
      | Inr min_interval \<Rightarrow>
          if min_interval \<ge> 86400 then Inr DAY
          else if min_interval \<ge> 3600 then Inr HOUR
          else Inr MINUTE)"

text \<open>
  \<^verbatim>\<open>
  unit = self.interval_unit()
  if unit == IntervalUnit.MINUTE: return "* * * * *"
  if unit == IntervalUnit.HOUR: return "0 * * * *"
  if unit == IntervalUnit.DAY: return "0 0 * * *"
  return ""
  \<close>
  The default \<^verbatim>\<open>sample_size\<close> is 10.
\<close>

definition normalized_cron :: "schedule \<Rightarrow> error + string" where
  "normalized_cron schedule =
     (case interval_unit schedule 10 of
        Inl e \<Rightarrow> Inl e
      | Inr unit \<Rightarrow>
          if unit = MINUTE then Inr ''* * * * *''
          else if unit = HOUR then Inr ''0 * * * *''
          else if unit = DAY then Inr ''0 0 * * *''
          else Inr '''')"

text \<open>The smallest of the nine gaps between ten consecutive fires, stated on the schedule.\<close>

definition min_gap :: "schedule \<Rightarrow> int" where
  "min_gap schedule = Min ((\<lambda>i. schedule (Suc i) - schedule i) ` {..<9})"

section \<open>The SQL syntax tree (sqlglot expressions, sqlmesh/core/dialect.py)\<close>

text \<open>
  A sqlglot \<^verbatim>\<open>Expression\<close> is a class and a dictionary \<^verbatim>\<open>args\<close> from argument keys to a
  child expression, a list of child expressions, a string, a boolean or \<^verbatim>\<open>None\<close>. The
  kinds are the classes the modelled code tests with \<^verbatim>\<open>isinstance\<close>; \<open>MacroVar\<close>,
  \<open>MacroFunc\<close>, \<open>MacroDef\<close>, \<open>MacroSQL\<close> and \<open>MacroStrReplace\<close> are the classes that
  dialect.py adds.
\<close>

datatype ekind =
    Select | Union | Subquery | With | From | Join | Where | Group | Having | Order
  | Between | And | Or | Not | GT | Paren | Cast | DataType | Alias | Column | Table | Identifier
  | Literal | Boolean | Null | Array | Var | Lambda | Anonymous
  | MacroVar | MacroFunc | MacroDef | MacroSQL | MacroStrReplace
  | OtherKind string

datatype 'e argv = Nd 'e | Lst "'e list" | Str string | Bl bool | Non

datatype expr = Expr (cls: ekind) (args: "(string \<times> expr argv) list")


text \<open>\<^verbatim>\<open>self.args.get(key)\<close>: an absent key reads as \<^verbatim>\<open>None\<close>.\<close>

definition get_arg :: "expr \<Rightarrow> string \<Rightarrow> expr argv" where
  "get_arg e key = (case map_of (args e) key of None \<Rightarrow> Non | Some v \<Rightarrow> v)"

text \<open>\<^verbatim>\<open>expression.set(key, value)\<close>: assigns \<^verbatim>\<open>args[key]\<close>.\<close>

definition set_arg :: "expr \<Rightarrow> string \<Rightarrow> expr argv \<Rightarrow> expr" where
  "set_arg e key v = Expr (cls e) (AList.update key v (args e))"





fun subnodes :: "expr argv \<Rightarrow> expr list" where
  "subnodes (Nd e) = [e]"
| "subnodes (Lst es) = es"
| "subnodes _ = []"

text \<open>The child expressions of a node, in the order of its \<^verbatim>\<open>args\<close>.\<close>

definition children :: "expr \<Rightarrow> expr list" where
  "children e = concat (map (\<lambda>kv. subnodes (snd kv)) (args e))"

lemma subnodes_size: "c \<in> set (subnodes v) \<Longrightarrow> size c < Suc (size_argv size v)"
proof (cases v)
  case (Lst es)
  assume "c \<in> set (subnodes v)"
  with Lst have "c \<in> set es" by simp
  then have "size c \<le> size_list size es"
    by (rule size_list_estimation') simp
  with Lst show ?thesis by simp
qed auto

lemma children_size [termination_simp]:
  "c \<in> set (children e) \<Longrightarrow> size c < size e"
proof (cases e)
  case (Expr k as)
  assume "c \<in> set (children e)"
  with Expr obtain kv where kv: "kv \<in> set as" and c: "c \<in> set (subnodes (snd kv))"
    by (auto simp: children_def)
  have "size_prod (\<lambda>_. 0) (size_argv size) kv
      \<le> size_list (size_prod (\<lambda>_. 0) (size_argv size)) as"
    using kv by (rule size_list_estimation') simp
  moreover have "size_argv size (snd kv) \<le> size_prod (\<lambda>_. 0) (size_argv size) kv"
    by (cases kv) simp
  ultimately show ?thesis
    using subnodes_size [OF c] Expr by simp
qed


text \<open>
  sqlglot's \<^verbatim>\<open>replace_children(expression, fun)\<close>, with the state that \<^verbatim>\<open>fun\<close> reads and
  writes passed along, and with the key the child is stored under (its \<^verbatim>\<open>arg_key\<close>) given to
  \<^verbatim>\<open>fun\<close>: each child expression is replaced by the collection \<^verbatim>\<open>fun\<close> returns
  for it (\<^verbatim>\<open>None\<close> is the empty collection); a list argument takes all of them, a
  single-valued argument the first (\<^verbatim>\<open>seq_get(new_child_nodes, 0)\<close>), or \<^verbatim>\<open>None\<close>.
\<close>

fun replace_nodes ::
  "('s \<Rightarrow> expr \<Rightarrow> error + (expr list \<times> 's)) \<Rightarrow> 's \<Rightarrow> expr list \<Rightarrow> error + (expr list \<times> 's)"
where
  "replace_nodes f s [] = Inr ([], s)"
| "replace_nodes f s (c # cs) =
     (case f s c of
        Inl x \<Rightarrow> Inl x
      | Inr (rs, s') \<Rightarrow>
          (case replace_nodes f s' cs of
             Inl x \<Rightarrow> Inl x
           | Inr (rest, s'') \<Rightarrow> Inr (rs @ rest, s'')))"

fun replace_arg ::
  "('s \<Rightarrow> expr \<Rightarrow> error + (expr list \<times> 's)) \<Rightarrow> 's \<Rightarrow> expr argv \<Rightarrow> error + (expr argv \<times> 's)"
where
  "replace_arg f s (Nd c) =
     (case f s c of
        Inl x \<Rightarrow> Inl x
      | Inr (rs, s') \<Rightarrow> Inr (case rs of [] \<Rightarrow> Non | r # _ \<Rightarrow> Nd r, s'))"
| "replace_arg f s (Lst cs) =
     (case replace_nodes f s cs of
        Inl x \<Rightarrow> Inl x
      | Inr (rs, s') \<Rightarrow> Inr (Lst rs, s'))"
| "replace_arg f s v = Inr (v, s)"

fun replace_args ::
  "('s \<Rightarrow> string \<Rightarrow> expr \<Rightarrow> error + (expr list \<times> 's)) \<Rightarrow> 's \<Rightarrow> (string \<times> expr argv) list
     \<Rightarrow> error + ((string \<times> expr argv) list \<times> 's)"
where
  "replace_args f s [] = Inr ([], s)"
| "replace_args f s (kv # kvs) =
     (case replace_arg (\<lambda>s. f s (fst kv)) s (snd kv) of
        Inl x \<Rightarrow> Inl x
      | Inr (v', s') \<Rightarrow>
          (case replace_args f s' kvs of
             Inl x \<Rightarrow> Inl x
           | Inr (rest, s'') \<Rightarrow> Inr ((fst kv, v') # rest, s'')))"

definition replace_children ::
  "('s \<Rightarrow> string \<Rightarrow> expr \<Rightarrow> error + (expr list \<times> 's)) \<Rightarrow> 's \<Rightarrow> expr \<Rightarrow> error + (expr \<times> 's)"
where
  "replace_children f s e =
     (case replace_args f s (args e) of
        Inl x \<Rightarrow> Inl x
      | Inr (as, s') \<Rightarrow> Inr (Expr (cls e) as, s'))"

lemma replace_nodes_cong:
  "(\<And>s c. c \<in> set cs \<Longrightarrow> f s c = g s c) \<Longrightarrow> replace_nodes f s cs = replace_nodes g s cs"
  by (induction cs arbitrary: s) (auto split: sum.splits)

lemma replace_arg_cong:
  "(\<And>s c. c \<in> set (subnodes v) \<Longrightarrow> f s c = g s c) \<Longrightarrow> replace_arg f s v = replace_arg g s v"
proof (cases v)
  case (Lst cs)
  assume "\<And>s c. c \<in> set (subnodes v) \<Longrightarrow> f s c = g s c"
  with Lst have "replace_nodes f s cs = replace_nodes g s cs"
    by (intro replace_nodes_cong) simp
  with Lst show ?thesis by simp
qed auto

lemma replace_args_cong:
  "(\<And>s c kv. kv \<in> set kvs \<Longrightarrow> c \<in> set (subnodes (snd kv)) \<Longrightarrow> f s (fst kv) c = g s (fst kv) c)
     \<Longrightarrow> replace_args f s kvs = replace_args g s kvs"
proof (induction kvs arbitrary: s)
  case Nil
  then show ?case by simp
next
  case (Cons kv kvs)
  have "replace_arg (\<lambda>s. f s (fst kv)) s (snd kv) = replace_arg (\<lambda>s. g s (fst kv)) s (snd kv)"
    by (rule replace_arg_cong) (rule Cons.prems, simp_all)
  moreover have "replace_args f s' kvs = replace_args g s' kvs" for s'
    by (rule Cons.IH) (rule Cons.prems, simp_all)
  ultimately show ?case by (simp split: sum.splits prod.splits)
qed

lemma replace_children_cong [fundef_cong]:
  "e = e' \<Longrightarrow> s = s' \<Longrightarrow> (\<And>s k c. c \<in> set (children e') \<Longrightarrow> f s k c = g s k c)
     \<Longrightarrow> replace_children f s e = replace_children g s' e'"
proof -
  assume e: "e = e'" and s: "s = s'"
    and fg: "\<And>s k c. c \<in> set (children e') \<Longrightarrow> f s k c = g s k c"
  have "replace_args f s' (args e') = replace_args g s' (args e')"
    by (rule replace_args_cong) (rule fg, auto simp: children_def)
  with e s show ?thesis by (simp add: replace_children_def)
qed






section \<open>Macro evaluation (sqlmesh/core/macros.py)\<close>










































section \<open>Example macro calls\<close>















section \<open>Incremental time filtering (sqlmesh/core/model.py)\<close>

datatype ModelKind = INCREMENTAL | FULL | SNAPSHOT | VIEW | EMBEDDED







text \<open>
  sqlglot's condition builders \<^verbatim>\<open>Select.where(cond, copy=False)\<close> and
  \<^verbatim>\<open>Select.having(cond, copy=False)\<close>: with \<^verbatim>\<open>append=True\<close> the condition is joined to the
  clause the select already has by \<^verbatim>\<open>AND\<close> (an operand that is an \<^verbatim>\<open>And\<close>, \<^verbatim>\<open>Or\<close> or
  \<^verbatim>\<open>Not\<close> is put in parentheses), and the clause is set on the select.
\<close>

definition wrap_operator :: "expr \<Rightarrow> expr" where
  "wrap_operator e =
     (if cls e = And \<or> cls e = Or \<or> cls e = Not then Expr Paren [(''this'', Nd e)] else e)"

definition apply_conjunction_builder :: "expr \<Rightarrow> string \<Rightarrow> ekind \<Rightarrow> expr \<Rightarrow> expr" where
  "apply_conjunction_builder instance arg into cond =
     (case get_arg instance arg of
        Nd existing \<Rightarrow>
          (case get_arg existing ''this'' of
             Nd c \<Rightarrow>
               set_arg instance arg (Nd (Expr into
                 [(''this'', Nd (Expr And [(''this'', Nd (wrap_operator c)),
                                           (''expression'', Nd (wrap_operator cond))]))]))
           | _ \<Rightarrow> set_arg instance arg (Nd (Expr into [(''this'', Nd cond)])))
      | _ \<Rightarrow> set_arg instance arg (Nd (Expr into [(''this'', Nd cond)])))"
















section \<open>The model of \<^verbatim>\<open>test_filter_time_column\<close> (tests/core/test_model.py)\<close>











section \<open>Snapshots, environments and the state reader\<close>

text \<open>
  Modelled from the spec: \<^verbatim>\<open>sqlmesh.core.snapshot\<close>, \<^verbatim>\<open>sqlmesh.core.environment\<close> and
  \<^verbatim>\<open>sqlmesh.core.state_sync\<close> are imported by context_diff.py and are not among the source
  files. The records hold the fields the spec lists for them and the diff reads: the
  fingerprint is the triple of hashes, a data version is a fingerprint with the version
  of its physical table, a snapshot id is the name with the fingerprint.
\<close>

record SnapshotFingerprint =
  data_hash :: string
  metadata_hash :: string
  parent_data_hash :: string

record SnapshotDataVersion =
  dv_fingerprint :: SnapshotFingerprint
  dv_version :: string

type_synonym SnapshotId = "string \<times> SnapshotFingerprint"

record SnapshotTableInfo =
  info_name :: string
  info_fingerprint :: SnapshotFingerprint
  info_version :: string
  info_previous_versions :: "SnapshotDataVersion list"

record Snapshot =
  name :: string
  fingerprint :: SnapshotFingerprint
  version :: "string option"
  previous_versions :: "SnapshotDataVersion list"
  indirect_versions :: "(string \<times> SnapshotDataVersion list) list"
  created_ts :: int

record Environment =
  env_name :: string
  env_snapshots :: "SnapshotTableInfo list"
  plan_id :: string

text \<open>Modelled from the spec: \<^verbatim>\<open>snapshot_id = (name, fingerprint)\<close>, of a snapshot and of a table info.\<close>

definition snapshot_id :: "Snapshot \<Rightarrow> SnapshotId" where
  "snapshot_id s = (name s, fingerprint s)"

definition info_snapshot_id :: "SnapshotTableInfo \<Rightarrow> SnapshotId" where
  "info_snapshot_id i = (info_name i, info_fingerprint i)"

text \<open>
  Modelled from the spec: the property \<^verbatim>\<open>Snapshot.previous_version\<close>, the head of the ordered
  list \<^verbatim>\<open>previous_versions\<close> (its last element, as the head of the remote versions is
  \<^verbatim>\<open>remote_versions[-1]\<close>), absent when the list is empty.
\<close>

definition previous_version :: "Snapshot \<Rightarrow> SnapshotDataVersion option" where
  "previous_version s =
     (if previous_versions s = [] then None else Some (last (previous_versions s)))"

text \<open>
  Modelled from the spec: \<^verbatim>\<open>data_hash_matches(a, b)\<close> compares only the \<^verbatim>\<open>data_hash\<close>
  component of the fingerprints.
\<close>

definition data_hash_matches :: "Snapshot \<Rightarrow> SnapshotDataVersion \<Rightarrow> bool" where
  "data_hash_matches s other = (data_hash (fingerprint s) = data_hash (dv_fingerprint other))"

text \<open>
  What the diff takes as given of the snapshot classes: the property
  \<^verbatim>\<open>SnapshotTableInfo.all_versions\<close>, and the version that \<^verbatim>\<open>set_version()\<close> without an
  argument derives from the snapshot's own fingerprint.
\<close>

record snapshot_externals =
  all_versions :: "SnapshotTableInfo \<Rightarrow> SnapshotDataVersion list"
  fresh_version :: "SnapshotFingerprint \<Rightarrow> string"

text \<open>
  Modelled from the spec: \<^verbatim>\<open>Snapshot.set_version(version)\<close> assigns the version
  (\<^verbatim>\<open>s.version = local_head\<close>, \<^verbatim>\<open>s.version = remote_head\<close>), and without an argument a fresh
  one (\<^verbatim>\<open>s.version = fresh()\<close>); no other field changes.
\<close>

definition set_version :: "snapshot_externals \<Rightarrow> Snapshot \<Rightarrow> string option \<Rightarrow> Snapshot" where
  "set_version X s v =
     (case v of
        Some v' \<Rightarrow> s\<lparr>version := Some v'\<rparr>
      | None \<Rightarrow> s\<lparr>version := Some (fresh_version X (fingerprint s))\<rparr>)"

text \<open>
  Modelled from the spec: the state reader, \<^verbatim>\<open>get_environment(name) -> Environment?\<close> and
  \<^verbatim>\<open>get_snapshots(ids) -> map<snapshot_id, Snapshot>\<close>.
\<close>

record StateReader =
  get_environment :: "string \<Rightarrow> Environment option"
  get_snapshots :: "SnapshotId list \<Rightarrow> SnapshotId \<Rightarrow> Snapshot option"

text \<open>
  Modelled from the spec: \<^verbatim>\<open>push_snapshots(list<Snapshot>)\<close> persists the snapshots: afterwards
  \<^verbatim>\<open>get_snapshots\<close> returns, for a requested id it had no snapshot for, the pushed snapshot
  with that id; what it returned before is unchanged, and so are the environments.
\<close>

definition push_snapshots :: "StateReader \<Rightarrow> Snapshot list \<Rightarrow> StateReader" where
  "push_snapshots reader pushed =
     reader\<lparr>get_snapshots := (\<lambda>ids i.
        case get_snapshots reader ids i of
          Some s \<Rightarrow> Some s
        | None \<Rightarrow> if i \<in> set ids then List.find (\<lambda>s. snapshot_id s = i) pushed else None)\<rparr>"

section \<open>The context diff (sqlmesh/core/context_diff.py)\<close>

text \<open>
  \<^verbatim>\<open>ContextDiff.create\<close> copies snapshots and then assigns to fields of the copies, which
  \<^verbatim>\<open>merged_snapshots\<close>, \<^verbatim>\<open>modified_snapshots\<close> and \<^verbatim>\<open>new_snapshots\<close> share. The snapshot
  objects that it can assign to live in a store, a list indexed by address: the caller's
  snapshots are in the store before the call, and \<^verbatim>\<open>snapshot.copy()\<close> allocates a new
  address. An object that \<^verbatim>\<open>create\<close> only reads (a snapshot returned by the state reader,
  or the copy of one) is held by value.
\<close>

type_synonym addr = nat

type_synonym store = "Snapshot list"

datatype sref = Obj Snapshot | Ref addr

text \<open>The fields of \<^verbatim>\<open>class ContextDiff\<close>.\<close>

record ContextDiff =
  environment :: string
  added :: "string set"
  removed :: "string set"
  modified_snapshots :: "(string \<times> sref \<times> Snapshot) list"
  snapshots :: "(string \<times> sref) list"
  new_snapshots :: "addr list"
  previous_plan_id :: "string option"

text \<open>The argument \<^verbatim>\<open>environment: str | Environment\<close>.\<close>

datatype environment_arg = EnvName string | EnvObj Environment

text \<open>
  The local variables of the first loop: the store, \<^verbatim>\<open>merged_snapshots\<close>,
  \<^verbatim>\<open>modified_snapshots\<close>, \<^verbatim>\<open>new_snapshots\<close> and \<^verbatim>\<open>snapshot_remote_versions\<close>.
\<close>

record diff_state =
  st_store :: store
  st_merged_snapshots :: "(string \<times> sref) list"
  st_modified_snapshots :: "(string \<times> sref \<times> Snapshot) list"
  st_new_snapshots :: "addr list"
  st_snapshot_remote_versions :: "(string \<times> SnapshotDataVersion list \<times> int) list"

text \<open>
  \<^verbatim>\<open>existing_info = {info.name: info for info in (env.snapshots if env else [])}\<close>:
  a later entry of the list replaces an earlier one of the same name.
\<close>

definition existing_info :: "Environment option \<Rightarrow> (string \<times> SnapshotTableInfo) list" where
  "existing_info env =
     fold (\<lambda>info d. AList.update (info_name info) info d)
       (case env of None \<Rightarrow> [] | Some e \<Rightarrow> env_snapshots e) []"

text \<open>
  \<^verbatim>\<open>
  modified_info = {
      name: existing_info[name]
      for name, snapshot in snapshots.items()
      if name not in added
      and snapshot.fingerprint != existing_info[name].fingerprint
  }
  \<close>
  A name is not in \<^verbatim>\<open>added\<close> when \<^verbatim>\<open>existing_info\<close> has it.
\<close>

definition modified_info ::
  "Environment option \<Rightarrow> (string \<times> Snapshot) list \<Rightarrow> (string \<times> SnapshotTableInfo) list"
where
  "modified_info env items =
     concat (map (\<lambda>(n, snapshot).
        case map_of (existing_info env) n of
          None \<Rightarrow> []
        | Some info \<Rightarrow> if fingerprint snapshot \<noteq> info_fingerprint info then [(n, info)] else [])
      items)"

text \<open>
  \<^verbatim>\<open>
  for child, versions in existing.indirect_versions.items():
      existing_versions = snapshot_remote_versions.get(child)
      if not existing_versions or existing_versions[1] < existing.created_ts:
          snapshot_remote_versions[child] = (versions, existing.created_ts)
  \<close>
\<close>

fun record_remote_versions ::
  "int \<Rightarrow> (string \<times> SnapshotDataVersion list) list
     \<Rightarrow> (string \<times> SnapshotDataVersion list \<times> int) list
     \<Rightarrow> (string \<times> SnapshotDataVersion list \<times> int) list"
where
  "record_remote_versions ts [] remote = remote"
| "record_remote_versions ts ((child, versions) # rest) remote =
     record_remote_versions ts rest
       (case map_of remote child of
          None \<Rightarrow> AList.update child (versions, ts) remote
        | Some existing_versions \<Rightarrow>
            if snd existing_versions < ts then AList.update child (versions, ts) remote
            else remote)"

text \<open>
  The body of the first loop, for one item \<^verbatim>\<open>name, snapshot\<close> of \<^verbatim>\<open>snapshots.items()\<close>:
  \<^verbatim>\<open>
  modified = modified_info.get(name)
  existing = stored.get(snapshot.snapshot_id)
  if existing:
      merged_snapshots[name] = existing.copy()
      if modified:
          modified_snapshots[name] = (existing, stored[modified.snapshot_id])
          for child, versions in existing.indirect_versions.items(): ...
  else:
      snapshot = snapshot.copy()
      merged_snapshots[name] = snapshot
      new_snapshots.append(snapshot)
      if modified:
          snapshot.previous_versions = modified.all_versions
          modified_snapshots[name] = (snapshot, stored[modified.snapshot_id])
  \<close>
  \<^verbatim>\<open>stored[...]\<close> raises \<^verbatim>\<open>KeyError\<close> for an id that the state reader returned no snapshot
  for.
\<close>

definition merge_snapshot ::
  "snapshot_externals \<Rightarrow> (string \<times> SnapshotTableInfo) list \<Rightarrow> (SnapshotId \<Rightarrow> Snapshot option)
     \<Rightarrow> diff_state \<Rightarrow> string \<times> addr \<Rightarrow> error + diff_state"
where
  "merge_snapshot X minfo stored st item =
     (let n = fst item;
          snapshot = st_store st ! snd item;
          modified = map_of minfo n
      in case stored (snapshot_id snapshot) of
           Some existing \<Rightarrow>
             (let st1 = st\<lparr>st_merged_snapshots := AList.update n (Obj existing) (st_merged_snapshots st)\<rparr>
              in case modified of
                   None \<Rightarrow> Inr st1
                 | Some m \<Rightarrow>
                     (case stored (info_snapshot_id m) of
                        None \<Rightarrow> Inl KeyError
                      | Some old \<Rightarrow>
                          Inr (st1\<lparr>st_modified_snapshots :=
                                    AList.update n (Obj existing, old) (st_modified_snapshots st1),
                                  st_snapshot_remote_versions :=
                                    record_remote_versions (created_ts existing)
                                      (indirect_versions existing)
                                      (st_snapshot_remote_versions st1)\<rparr>)))
         | None \<Rightarrow>
             (let c = length (st_store st);
                  st1 = st\<lparr>st_store := st_store st @ [snapshot],
                           st_merged_snapshots := AList.update n (Ref c) (st_merged_snapshots st),
                           st_new_snapshots := st_new_snapshots st @ [c]\<rparr>
              in case modified of
                   None \<Rightarrow> Inr st1
                 | Some m \<Rightarrow>
                     (let st2 = st1\<lparr>st_store := (st_store st1)
                                   [c := (st_store st1 ! c)\<lparr>previous_versions := all_versions X m\<rparr>]\<rparr>
                      in case stored (info_snapshot_id m) of
                           None \<Rightarrow> Inl KeyError
                         | Some old \<Rightarrow>
                             Inr (st2\<lparr>st_modified_snapshots :=
                                       AList.update n (Ref c, old) (st_modified_snapshots st2)\<rparr>))))"

text \<open>\<^verbatim>\<open>for name, snapshot in snapshots.items(): ...\<close>\<close>

fun merge_snapshots ::
  "snapshot_externals \<Rightarrow> (string \<times> SnapshotTableInfo) list \<Rightarrow> (SnapshotId \<Rightarrow> Snapshot option)
     \<Rightarrow> diff_state \<Rightarrow> (string \<times> addr) list \<Rightarrow> error + diff_state"
where
  "merge_snapshots X minfo stored st [] = Inr st"
| "merge_snapshots X minfo stored st (item # items) =
     (case merge_snapshot X minfo stored st item of
        Inl x \<Rightarrow> Inl x
      | Inr st' \<Rightarrow> merge_snapshots X minfo stored st' items)"

text \<open>
  The body of the second loop, for one snapshot of \<^verbatim>\<open>new_snapshots\<close>:
  \<^verbatim>\<open>
  if (snapshot.name in snapshot_remote_versions
      and snapshot.previous_version
      and snapshot.data_hash_matches(snapshot.previous_version)):
      remote_versions = snapshot_remote_versions[snapshot.name][0]
      remote_head = remote_versions[-1].version
      local_head = snapshot.previous_version.version
      if remote_head in (local.version for local in snapshot.previous_versions):
          snapshot.set_version(local_head)
      elif local_head in (remote.version for remote in remote_versions):
          snapshot.set_version(remote_head)
      else:
          snapshot.set_version()
  \<close>
  \<^verbatim>\<open>remote_versions[-1]\<close> raises \<^verbatim>\<open>IndexError\<close> on an empty tuple.
\<close>

definition reuse_version ::
  "snapshot_externals \<Rightarrow> (string \<times> SnapshotDataVersion list \<times> int) list \<Rightarrow> Snapshot
     \<Rightarrow> error + Snapshot"
where
  "reuse_version X remote snapshot =
     (case map_of remote (name snapshot) of
        None \<Rightarrow> Inr snapshot
      | Some entry \<Rightarrow>
          (case previous_version snapshot of
             None \<Rightarrow> Inr snapshot
           | Some pv \<Rightarrow>
               if data_hash_matches snapshot pv
               then (let remote_versions = fst entry
                     in if remote_versions = [] then Inl IndexError
                        else (let remote_head = dv_version (last remote_versions);
                                  local_head = dv_version pv
                              in if remote_head \<in> set (map dv_version (previous_versions snapshot))
                                 then Inr (set_version X snapshot (Some local_head))
                                 else if local_head \<in> set (map dv_version remote_versions)
                                 then Inr (set_version X snapshot (Some remote_head))
                                 else Inr (set_version X snapshot None)))
               else Inr snapshot))"

text \<open>\<^verbatim>\<open>for snapshot in new_snapshots: ...\<close>, on the store.\<close>

fun set_versions ::
  "snapshot_externals \<Rightarrow> (string \<times> SnapshotDataVersion list \<times> int) list \<Rightarrow> store
     \<Rightarrow> addr list \<Rightarrow> error + store"
where
  "set_versions X remote h [] = Inr h"
| "set_versions X remote h (c # cs) =
     (case reuse_version X remote (h ! c) of
        Inl x \<Rightarrow> Inl x
      | Inr s \<Rightarrow> set_versions X remote (h[c := s]) cs)"

text \<open>
  \<^verbatim>\<open>
  if isinstance(environment, str):
      env = state_reader.get_environment(environment)
  else:
      env = environment
      environment = env.name
  \<close>
\<close>

definition env_of :: "StateReader \<Rightarrow> environment_arg \<Rightarrow> Environment option" where
  "env_of reader env_arg =
     (case env_arg of EnvName n \<Rightarrow> get_environment reader n | EnvObj e \<Rightarrow> Some e)"

definition environment_name :: "environment_arg \<Rightarrow> string" where
  "environment_name env_arg = (case env_arg of EnvName n \<Rightarrow> n | EnvObj e \<Rightarrow> env_name e)"

text \<open>
  \<^verbatim>\<open>
  stored = state_reader.get_snapshots(
      list(modified_info.values())
      + [snapshot.snapshot_id for snapshot in snapshots.values()])
  \<close>
\<close>

definition requested_ids :: "Environment option \<Rightarrow> (string \<times> Snapshot) list \<Rightarrow> SnapshotId list" where
  "requested_ids env items =
     map (\<lambda>kv. info_snapshot_id (snd kv)) (modified_info env items)
       @ map (\<lambda>kv. snapshot_id (snd kv)) items"

text \<open>\<^verbatim>\<open>snapshots.items()\<close>: the names with the snapshots at their addresses.\<close>

definition items_of :: "store \<Rightarrow> (string \<times> addr) list \<Rightarrow> (string \<times> Snapshot) list" where
  "items_of h snaps = map (\<lambda>kv. (fst kv, h ! snd kv)) snaps"

text \<open>The state of the first loop at its start, and the loop as \<^verbatim>\<open>create\<close> runs it.\<close>

definition initial_state :: "store \<Rightarrow> diff_state" where
  "initial_state h = \<lparr> st_store = h, st_merged_snapshots = [], st_modified_snapshots = [],
     st_new_snapshots = [], st_snapshot_remote_versions = [] \<rparr>"

definition first_loop ::
  "snapshot_externals \<Rightarrow> StateReader \<Rightarrow> environment_arg \<Rightarrow> (string \<times> addr) list \<Rightarrow> store
     \<Rightarrow> error + diff_state"
where
  "first_loop X reader env_arg snaps h =
     (let env = env_of reader env_arg
      in merge_snapshots X (modified_info env (items_of h snaps))
           (get_snapshots reader (requested_ids env (items_of h snaps))) (initial_state h) snaps)"

text \<open>
  \<^verbatim>\<open>ContextDiff.create(environment, snapshots, state_reader)\<close>, on a store: the caller's
  \<^verbatim>\<open>snapshots\<close> maps names to addresses of the store. The result is the diff with the store
  after the call.
  \<^verbatim>\<open>
  existing_models = set(existing_info)
  current_models = set(snapshots)
  removed = existing_models - current_models
  added = current_models - existing_models
  ...
  return ContextDiff(
      environment=environment, added=added, removed=removed,
      modified_snapshots=modified_snapshots, snapshots=merged_snapshots,
      new_snapshots=new_snapshots,
      previous_plan_id=env.plan_id if env else None)
  \<close>
\<close>

definition create ::
  "snapshot_externals \<Rightarrow> environment_arg \<Rightarrow> (string \<times> addr) list \<Rightarrow> StateReader \<Rightarrow> store
     \<Rightarrow> error + (ContextDiff \<times> store)"
where
  "create X env_arg snaps reader h =
     (let env = env_of reader env_arg;
          existing_models = set (map fst (existing_info env));
          current_models = set (map fst snaps)
      in case first_loop X reader env_arg snaps h of
           Inl x \<Rightarrow> Inl x
         | Inr st \<Rightarrow>
             (case set_versions X (st_snapshot_remote_versions st) (st_store st)
                     (st_new_snapshots st) of
                Inl x \<Rightarrow> Inl x
              | Inr h' \<Rightarrow>
                  Inr (\<lparr> environment = environment_name env_arg,
                         added = current_models - existing_models,
                         removed = existing_models - current_models,
                         modified_snapshots = st_modified_snapshots st,
                         snapshots = st_merged_snapshots st,
                         new_snapshots = st_new_snapshots st,
                         previous_plan_id = (case env of None \<Rightarrow> None | Some e \<Rightarrow> Some (plan_id e)) \<rparr>,
                       h')))"

text \<open>
  The value of a diff in a store: each reference is replaced by the snapshot it points
  to. Two diffs that Python compares as equal have the same value.
\<close>

definition deref :: "store \<Rightarrow> sref \<Rightarrow> Snapshot" where
  "deref h r = (case r of Obj s \<Rightarrow> s | Ref a \<Rightarrow> h ! a)"

record ContextDiffValue =
  v_environment :: string
  v_added :: "string set"
  v_removed :: "string set"
  v_modified_snapshots :: "(string \<times> Snapshot \<times> Snapshot) list"
  v_snapshots :: "(string \<times> Snapshot) list"
  v_new_snapshots :: "Snapshot list"
  v_previous_plan_id :: "string option"

definition diff_value :: "store \<Rightarrow> ContextDiff \<Rightarrow> ContextDiffValue" where
  "diff_value h d = \<lparr>
     v_environment = environment d,
     v_added = added d,
     v_removed = removed d,
     v_modified_snapshots = map (\<lambda>(n, r, old). (n, deref h r, old)) (modified_snapshots d),
     v_snapshots = map (\<lambda>(n, r). (n, deref h r)) (snapshots d),
     v_new_snapshots = map (\<lambda>a. h ! a) (new_snapshots d),
     v_previous_plan_id = previous_plan_id d \<rparr>"

section \<open>The diff on values\<close>

text \<open>
  The same computation on snapshot values instead of addresses, to compare what two calls
  return: an entry of \<^verbatim>\<open>merged_snapshots\<close> or \<^verbatim>\<open>modified_snapshots\<close> is the value of a
  snapshot that the state reader returned (\<open>Old\<close>) or of a copy that is also in
  \<^verbatim>\<open>new_snapshots\<close> (\<open>New\<close>), and the second loop maps over the latter.
\<close>

datatype vref = Old Snapshot | New Snapshot

record value_state =
  vs_merged_snapshots :: "(string \<times> vref) list"
  vs_modified_snapshots :: "(string \<times> vref \<times> Snapshot) list"
  vs_new_snapshots :: "Snapshot list"
  vs_snapshot_remote_versions :: "(string \<times> SnapshotDataVersion list \<times> int) list"

definition merge_snapshot_v ::
  "snapshot_externals \<Rightarrow> (string \<times> SnapshotTableInfo) list \<Rightarrow> (SnapshotId \<Rightarrow> Snapshot option)
     \<Rightarrow> value_state \<Rightarrow> string \<times> Snapshot \<Rightarrow> error + value_state"
where
  "merge_snapshot_v X minfo stored vs item =
     (let n = fst item;
          snapshot = snd item;
          modified = map_of minfo n
      in case stored (snapshot_id snapshot) of
           Some existing \<Rightarrow>
             (let vs1 = vs\<lparr>vs_merged_snapshots :=
                            AList.update n (Old existing) (vs_merged_snapshots vs)\<rparr>
              in case modified of
                   None \<Rightarrow> Inr vs1
                 | Some m \<Rightarrow>
                     (case stored (info_snapshot_id m) of
                        None \<Rightarrow> Inl KeyError
                      | Some old \<Rightarrow>
                          Inr (vs1\<lparr>vs_modified_snapshots :=
                                    AList.update n (Old existing, old) (vs_modified_snapshots vs1),
                                  vs_snapshot_remote_versions :=
                                    record_remote_versions (created_ts existing)
                                      (indirect_versions existing)
                                      (vs_snapshot_remote_versions vs1)\<rparr>)))
         | None \<Rightarrow>
             (case modified of
                None \<Rightarrow>
                  Inr (vs\<lparr>vs_merged_snapshots :=
                             AList.update n (New snapshot) (vs_merged_snapshots vs),
                           vs_new_snapshots := vs_new_snapshots vs @ [snapshot]\<rparr>)
              | Some m \<Rightarrow>
                  (let copy = snapshot\<lparr>previous_versions := all_versions X m\<rparr>
                   in case stored (info_snapshot_id m) of
                        None \<Rightarrow> Inl KeyError
                      | Some old \<Rightarrow>
                          Inr (vs\<lparr>vs_merged_snapshots :=
                                     AList.update n (New copy) (vs_merged_snapshots vs),
                                   vs_new_snapshots := vs_new_snapshots vs @ [copy],
                                   vs_modified_snapshots :=
                                     AList.update n (New copy, old) (vs_modified_snapshots vs)\<rparr>))))"

fun merge_snapshots_v ::
  "snapshot_externals \<Rightarrow> (string \<times> SnapshotTableInfo) list \<Rightarrow> (SnapshotId \<Rightarrow> Snapshot option)
     \<Rightarrow> value_state \<Rightarrow> (string \<times> Snapshot) list \<Rightarrow> error + value_state"
where
  "merge_snapshots_v X minfo stored vs [] = Inr vs"
| "merge_snapshots_v X minfo stored vs (item # items) =
     (case merge_snapshot_v X minfo stored vs item of
        Inl x \<Rightarrow> Inl x
      | Inr vs' \<Rightarrow> merge_snapshots_v X minfo stored vs' items)"

fun reuse_versions ::
  "snapshot_externals \<Rightarrow> (string \<times> SnapshotDataVersion list \<times> int) list \<Rightarrow> Snapshot list
     \<Rightarrow> error + Snapshot list"
where
  "reuse_versions X remote [] = Inr []"
| "reuse_versions X remote (s # ss) =
     (case reuse_version X remote s of
        Inl x \<Rightarrow> Inl x
      | Inr s' \<Rightarrow>
          (case reuse_versions X remote ss of
             Inl x \<Rightarrow> Inl x
           | Inr ss' \<Rightarrow> Inr (s' # ss')))"

definition reused :: "snapshot_externals \<Rightarrow> (string \<times> SnapshotDataVersion list \<times> int) list
     \<Rightarrow> vref \<Rightarrow> Snapshot" where
  "reused X remote r =
     (case r of
        Old s \<Rightarrow> s
      | New s \<Rightarrow> (case reuse_version X remote s of Inl x \<Rightarrow> s | Inr s' \<Rightarrow> s'))"

definition create_v ::
  "snapshot_externals \<Rightarrow> environment_arg \<Rightarrow> (string \<times> Snapshot) list \<Rightarrow> StateReader
     \<Rightarrow> error + ContextDiffValue"
where
  "create_v X env_arg items reader =
     (let env = env_of reader env_arg;
          existing_models = set (map fst (existing_info env));
          current_models = set (map fst items)
      in case merge_snapshots_v X (modified_info env items)
                (get_snapshots reader (requested_ids env items))
                \<lparr> vs_merged_snapshots = [], vs_modified_snapshots = [],
                  vs_new_snapshots = [], vs_snapshot_remote_versions = [] \<rparr> items of
           Inl x \<Rightarrow> Inl x
         | Inr vs \<Rightarrow>
             (case reuse_versions X (vs_snapshot_remote_versions vs) (vs_new_snapshots vs) of
                Inl x \<Rightarrow> Inl x
              | Inr new \<Rightarrow>
                  Inr \<lparr> v_environment = environment_name env_arg,
                        v_added = current_models - existing_models,
                        v_removed = existing_models - current_models,
                        v_modified_snapshots =
                          map (\<lambda>(n, r, old). (n, reused X (vs_snapshot_remote_versions vs) r, old))
                            (vs_modified_snapshots vs),
                        v_snapshots =
                          map (\<lambda>(n, r). (n, reused X (vs_snapshot_remote_versions vs) r))
                            (vs_merged_snapshots vs),
                        v_new_snapshots = new,
                        v_previous_plan_id =
                          (case env of None \<Rightarrow> None | Some e \<Rightarrow> Some (plan_id e)) \<rparr>))"

text \<open>The value of the state of the first loop.\<close>

definition vref_of :: "store \<Rightarrow> sref \<Rightarrow> vref" where
  "vref_of h r = (case r of Obj s \<Rightarrow> Old s | Ref a \<Rightarrow> New (h ! a))"

definition state_value :: "diff_state \<Rightarrow> value_state" where
  "state_value st = \<lparr>
     vs_merged_snapshots =
       map (\<lambda>kv. (fst kv, vref_of (st_store st) (snd kv))) (st_merged_snapshots st),
     vs_modified_snapshots =
       map (\<lambda>kv. (fst kv, vref_of (st_store st) (fst (snd kv)), snd (snd kv)))
         (st_modified_snapshots st),
     vs_new_snapshots = map (\<lambda>a. st_store st ! a) (st_new_snapshots st),
     vs_snapshot_remote_versions = st_snapshot_remote_versions st \<rparr>"

text \<open>
  What holds of the references during the first loop, for a store that had \<open>n0\<close> objects
  before the call: the new snapshots are distinct addresses allocated by the call, and
  every reference in \<^verbatim>\<open>merged_snapshots\<close> and \<^verbatim>\<open>modified_snapshots\<close> is one of them.
\<close>

definition refs_ok :: "nat \<Rightarrow> diff_state \<Rightarrow> bool" where
  "refs_ok n0 st =
     (distinct (st_new_snapshots st)
      \<and> list_all (\<lambda>c. n0 \<le> c \<and> c < length (st_store st)) (st_new_snapshots st)
      \<and> list_all (\<lambda>kv. case snd kv of Obj s \<Rightarrow> True | Ref c \<Rightarrow> c \<in> set (st_new_snapshots st))
           (st_merged_snapshots st)
      \<and> list_all (\<lambda>kv. case fst (snd kv) of Obj s \<Rightarrow> True | Ref c \<Rightarrow> c \<in> set (st_new_snapshots st))
           (st_modified_snapshots st)
      \<and> n0 \<le> length (st_store st))"

section \<open>An example diff\<close>

text \<open>
  The environment \<^verbatim>\<open>prod\<close> holds the models \<^verbatim>\<open>A\<close>, \<^verbatim>\<open>B\<close> (a child of \<^verbatim>\<open>A\<close>) and \<^verbatim>\<open>D\<close>. Locally
  \<^verbatim>\<open>A\<close> is changed, \<^verbatim>\<open>B\<close> is unchanged but for its parent, \<^verbatim>\<open>C\<close> is new and \<^verbatim>\<open>D\<close> is gone. The
  changed \<^verbatim>\<open>A\<close> is already in the state, stored by another plan, and records for its child
  \<^verbatim>\<open>B\<close> the versions \<^verbatim>\<open>vB0\<close> and \<^verbatim>\<open>vB2\<close>: the remote history of \<^verbatim>\<open>B\<close> has advanced past the
  local one.
\<close>

definition fp :: "string \<Rightarrow> string \<Rightarrow> string \<Rightarrow> SnapshotFingerprint" where
  "fp d m p = \<lparr> data_hash = d, metadata_hash = m, parent_data_hash = p \<rparr>"

definition example_externals :: snapshot_externals where
  "example_externals = \<lparr>
     all_versions = (\<lambda>i. info_previous_versions i
        @ [\<lparr> dv_fingerprint = info_fingerprint i, dv_version = info_version i \<rparr>]),
     fresh_version = (\<lambda>f. data_hash f @ ''-'' @ parent_data_hash f) \<rparr>"

definition info_A :: SnapshotTableInfo where
  "info_A = \<lparr> info_name = ''A'', info_fingerprint = fp ''a0'' ''m'' ''0'', info_version = ''vA0'',
     info_previous_versions = [] \<rparr>"

definition info_B :: SnapshotTableInfo where
  "info_B = \<lparr> info_name = ''B'', info_fingerprint = fp ''b'' ''m'' ''a0'', info_version = ''vB0'',
     info_previous_versions = [] \<rparr>"

definition info_D :: SnapshotTableInfo where
  "info_D = \<lparr> info_name = ''D'', info_fingerprint = fp ''d'' ''m'' ''0'', info_version = ''vD0'',
     info_previous_versions = [] \<rparr>"

definition prod :: Environment where
  "prod = \<lparr> env_name = ''prod'', env_snapshots = [info_A, info_B, info_D], plan_id = ''plan1'' \<rparr>"

definition old_A :: Snapshot where
  "old_A = \<lparr> name = ''A'', fingerprint = fp ''a0'' ''m'' ''0'', version = Some ''vA0'',
     previous_versions = [], indirect_versions = [], created_ts = 1 \<rparr>"

definition old_B :: Snapshot where
  "old_B = \<lparr> name = ''B'', fingerprint = fp ''b'' ''m'' ''a0'', version = Some ''vB0'',
     previous_versions = [], indirect_versions = [], created_ts = 1 \<rparr>"

definition stored_A :: Snapshot where
  "stored_A = \<lparr> name = ''A'', fingerprint = fp ''a1'' ''m'' ''0'', version = Some ''vA1'',
     previous_versions = [\<lparr> dv_fingerprint = fp ''a0'' ''m'' ''0'', dv_version = ''vA0'' \<rparr>],
     indirect_versions =
       [(''B'', [\<lparr> dv_fingerprint = fp ''b'' ''m'' ''a0'', dv_version = ''vB0'' \<rparr>,
                 \<lparr> dv_fingerprint = fp ''b'' ''m'' ''a1'', dv_version = ''vB2'' \<rparr>])],
     created_ts = 2 \<rparr>"

definition local_A :: Snapshot where
  "local_A = \<lparr> name = ''A'', fingerprint = fp ''a1'' ''m'' ''0'', version = None,
     previous_versions = [], indirect_versions = [], created_ts = 0 \<rparr>"

definition local_B :: Snapshot where
  "local_B = \<lparr> name = ''B'', fingerprint = fp ''b'' ''m'' ''a1'', version = None,
     previous_versions = [], indirect_versions = [], created_ts = 0 \<rparr>"

definition local_C :: Snapshot where
  "local_C = \<lparr> name = ''C'', fingerprint = fp ''c'' ''m'' ''0'', version = None,
     previous_versions = [], indirect_versions = [], created_ts = 0 \<rparr>"

definition example_reader :: StateReader where
  "example_reader = \<lparr>
     get_environment = (\<lambda>n. if n = ''prod'' then Some prod else None),
     get_snapshots = (\<lambda>ids i. if i \<in> set ids
        then map_of [(snapshot_id old_A, old_A), (snapshot_id old_B, old_B),
                     (snapshot_id stored_A, stored_A)] i
        else None) \<rparr>"

text \<open>The caller's snapshots, and the store that holds them.\<close>

definition example_snapshots :: "(string \<times> addr) list" where
  "example_snapshots = [(''A'', 0), (''B'', 1), (''C'', 2)]"

definition example_store :: store where
  "example_store = [local_A, local_B, local_C]"

text \<open>What \<^verbatim>\<open>create\<close> returns for the example, and the store after the call.\<close>

definition copied_B :: Snapshot where
  "copied_B = local_B\<lparr> version := Some ''vB2'',
     previous_versions := [\<lparr> dv_fingerprint = fp ''b'' ''m'' ''a0'', dv_version = ''vB0'' \<rparr>] \<rparr>"

definition example_diff :: ContextDiff where
  "example_diff = \<lparr> environment = ''prod'', added = {''C''}, removed = {''D''},
     modified_snapshots = [(''A'', Obj stored_A, old_A), (''B'', Ref 3, old_B)],
     snapshots = [(''A'', Obj stored_A), (''B'', Ref 3), (''C'', Ref 4)],
     new_snapshots = [3, 4], previous_plan_id = Some ''plan1'' \<rparr>"

definition example_result_store :: store where
  "example_result_store = [local_A, local_B, local_C, copied_B, local_C]"

section \<open>Properties of the interval unit\<close>

lemma fold_min_Min: "fold min xs (x::int) = Min (insert x (set xs))"
  using Min.set_eq_fold [of x xs] by simp

lemma sample_gaps:
  "map (\<lambda>(a, b). b - a) (zip (map schedule [0..<Suc n]) (tl (map schedule [0..<Suc n])))
     = map (\<lambda>i. schedule (Suc i) - schedule i) [0..<n]"
proof (rule nth_equalityI)
  show "length (map (\<lambda>(a, b). b - a)
          (zip (map schedule [0..<Suc n]) (tl (map schedule [0..<Suc n]))))
        = length (map (\<lambda>i. schedule (Suc i) - schedule i) [0..<n])"
    by simp
next
  fix i
  assume "i < length (map (\<lambda>(a, b). b - a)
            (zip (map schedule [0..<Suc n]) (tl (map schedule [0..<Suc n]))))"
  then have i: "i < n" by simp
  then show "map (\<lambda>(a, b). b - a)
          (zip (map schedule [0..<Suc n]) (tl (map schedule [0..<Suc n]))) ! i
        = map (\<lambda>i. schedule (Suc i) - schedule i) [0..<n] ! i"
    by (simp add: nth_tl del: upt_Suc)
qed

lemma py_min_gaps:
  "py_min (map (\<lambda>i. schedule (Suc i) - schedule i) [0..<Suc n])
     = Inr (Min ((\<lambda>i. schedule (Suc i) - schedule i) ` {..<Suc n}))"
proof -
  have "[0..<Suc n] = 0 # map Suc [0..<n]"
    by (simp add: upt_conv_Cons map_Suc_upt del: upt_Suc)
  then have "py_min (map (\<lambda>i. schedule (Suc i) - schedule i) [0..<Suc n])
      = Inr (Min (set (map (\<lambda>i. schedule (Suc i) - schedule i) [0..<Suc n])))"
    by (simp add: py_min_def fold_min_Min del: upt_Suc)
  also have "set (map (\<lambda>i. schedule (Suc i) - schedule i) [0..<Suc n])
      = (\<lambda>i. schedule (Suc i) - schedule i) ` {..<Suc n}"
    by (simp add: atLeast0LessThan del: upt_Suc)
  finally show ?thesis .
qed

text \<open>
  C9 (amended). The derived interval unit is DAY when the smallest of the nine gaps between
  ten consecutive sampled fires is at least 86400 seconds, HOUR when it is at least 3600,
  and MINUTE otherwise; \<open>normalized_cron\<close> returns \<^verbatim>\<open>0 0 * * *\<close> for DAY,
  \<^verbatim>\<open>0 * * * *\<close> for HOUR and \<^verbatim>\<open>* * * * *\<close> for MINUTE.
\<close>

theorem interval_unit_normalized_cron:
  "interval_unit s 10 =
     Inr (if min_gap s \<ge> 86400 then DAY else if min_gap s \<ge> 3600 then HOUR else MINUTE)
   \<and> normalized_cron s =
     Inr (if min_gap s \<ge> 86400 then ''0 0 * * *''
          else if min_gap s \<ge> 3600 then ''0 * * * *'' else ''* * * * *'')"
proof -
  have ten: "(10::nat) = Suc 9" by simp
  have u: "interval_unit s 10 =
     Inr (if min_gap s \<ge> 86400 then DAY else if min_gap s \<ge> 3600 then HOUR else MINUTE)"
    unfolding interval_unit_def Let_def ten sample_gaps min_gap_def
    using py_min_gaps [of s 8] by simp
  show ?thesis
    by (simp add: u normalized_cron_def)
qed

text \<open>
  C9 as stated fails for the MINUTE unit: a schedule firing every 60 seconds is normalized
  to \<^verbatim>\<open>* * * * *\<close>, not to \<^verbatim>\<open>*/* */* * * *\<close>.
\<close>

theorem normalized_cron_minute_counterexample:
  "interval_unit (\<lambda>i. 60 * int i) 10 = Inr MINUTE
   \<and> normalized_cron (\<lambda>i. 60 * int i) = Inr ''* * * * *''
   \<and> normalized_cron (\<lambda>i. 60 * int i) \<noteq> Inr ''*/* */* * * *''"
  by code_simp

section \<open>Where the children of a rebuilt node come from\<close>






section \<open>Properties of macro evaluation\<close>









subsection \<open>Macro-free trees\<close>



































section \<open>Properties of the time filter\<close>




lemma cls_set_arg [simp]: "cls (set_arg e k v) = cls e"
  by (simp add: set_arg_def)




lemma apply_conjunction_builder_cls [simp]:
  "cls (apply_conjunction_builder q k into b) = cls q"
  by (auto simp: apply_conjunction_builder_def split: argv.splits)




















section \<open>Properties of the context diff\<close>

subsection \<open>The example\<close>

lemma example_run:
  "create example_externals (EnvName ''prod'') example_snapshots example_reader example_store
     = Inr (example_diff, example_result_store)"
  by code_simp

subsection \<open>One iteration of the first loop\<close>

lemma merge_snapshot_cases:
  assumes "merge_snapshot X mi stored st item = Inr st'"
  obtains (existing) ex M R where
      "stored (snapshot_id (st_store st ! snd item)) = Some ex"
      "st' = st\<lparr>st_merged_snapshots := AList.update (fst item) (Obj ex) (st_merged_snapshots st),
                st_modified_snapshots := M, st_snapshot_remote_versions := R\<rparr>"
      "M = st_modified_snapshots st
         \<or> (\<exists>m old. map_of mi (fst item) = Some m \<and> stored (info_snapshot_id m) = Some old
               \<and> M = AList.update (fst item) (Obj ex, old) (st_modified_snapshots st))"
  | (new) s1 M where
      "stored (snapshot_id (st_store st ! snd item)) = None"
      "st' = st\<lparr>st_store := st_store st @ [s1],
                st_merged_snapshots :=
                  AList.update (fst item) (Ref (length (st_store st))) (st_merged_snapshots st),
                st_new_snapshots := st_new_snapshots st @ [length (st_store st)],
                st_modified_snapshots := M\<rparr>"
      "(map_of mi (fst item) = None \<and> s1 = st_store st ! snd item \<and> M = st_modified_snapshots st)
         \<or> (\<exists>m old. map_of mi (fst item) = Some m \<and> stored (info_snapshot_id m) = Some old
               \<and> s1 = (st_store st ! snd item)\<lparr>previous_versions := all_versions X m\<rparr>
               \<and> M = AList.update (fst item) (Ref (length (st_store st)), old)
                       (st_modified_snapshots st))"
proof (cases "stored (snapshot_id (st_store st ! snd item))")
  case None
  show ?thesis
  proof (cases "map_of mi (fst item)")
    case n: None
    from assms None n have "st' = st\<lparr>st_store := st_store st @ [st_store st ! snd item],
                st_merged_snapshots :=
                  AList.update (fst item) (Ref (length (st_store st))) (st_merged_snapshots st),
                st_new_snapshots := st_new_snapshots st @ [length (st_store st)],
                st_modified_snapshots := st_modified_snapshots st\<rparr>"
      by (auto simp: merge_snapshot_def Let_def)
    from new [OF None this] n show ?thesis by blast
  next
    case (Some m)
    with None assms obtain old where old: "stored (info_snapshot_id m) = Some old"
      by (cases "stored (info_snapshot_id m)") (auto simp: merge_snapshot_def Let_def)
    from assms None Some old have "st' = st\<lparr>st_store := st_store st
                  @ [(st_store st ! snd item)\<lparr>previous_versions := all_versions X m\<rparr>],
                st_merged_snapshots :=
                  AList.update (fst item) (Ref (length (st_store st))) (st_merged_snapshots st),
                st_new_snapshots := st_new_snapshots st @ [length (st_store st)],
                st_modified_snapshots := AList.update (fst item) (Ref (length (st_store st)), old)
                       (st_modified_snapshots st)\<rparr>"
      by (auto simp: merge_snapshot_def Let_def)
    from new [OF None this] Some old show ?thesis by blast
  qed
next
  case (Some ex)
  show ?thesis
  proof (cases "map_of mi (fst item)")
    case None
    from assms Some None have "st' = st\<lparr>st_merged_snapshots :=
                  AList.update (fst item) (Obj ex) (st_merged_snapshots st),
                st_modified_snapshots := st_modified_snapshots st,
                st_snapshot_remote_versions := st_snapshot_remote_versions st\<rparr>"
      by (auto simp: merge_snapshot_def Let_def)
    from existing [OF Some this] show ?thesis by blast
  next
    case m: (Some m)
    with Some assms obtain old where old: "stored (info_snapshot_id m) = Some old"
      by (cases "stored (info_snapshot_id m)") (auto simp: merge_snapshot_def Let_def)
    from assms Some m old have "st' = st\<lparr>st_merged_snapshots :=
                  AList.update (fst item) (Obj ex) (st_merged_snapshots st),
                st_modified_snapshots :=
                  AList.update (fst item) (Obj ex, old) (st_modified_snapshots st),
                st_snapshot_remote_versions :=
                  record_remote_versions (created_ts ex) (indirect_versions ex)
                    (st_snapshot_remote_versions st)\<rparr>"
      by (auto simp: merge_snapshot_def Let_def)
    from existing [OF Some this] m old show ?thesis by blast
  qed
qed

lemma merge_snapshot_keys:
  assumes "merge_snapshot X mi stored st item = Inr st'"
  shows "fst ` set (st_merged_snapshots st') = insert (fst item) (fst ` set (st_merged_snapshots st))"
    and "fst ` set (st_modified_snapshots st')
           \<subseteq> fst ` set (st_modified_snapshots st) \<union> (fst ` set mi \<inter> {fst item})"
proof -
  show "fst ` set (st_merged_snapshots st') = insert (fst item) (fst ` set (st_merged_snapshots st))"
    using assms by (cases rule: merge_snapshot_cases) (simp_all add: dom_update)
  have k: "fst ` set (AList.update (fst item) v al)
      \<subseteq> fst ` set al \<union> (fst ` set mi \<inter> {fst item})"
    if "map_of mi (fst item) = Some m" for m v and al :: "(string \<times> sref \<times> Snapshot) list"
  proof -
    from that have "fst item \<in> fst ` set mi" by (force dest: map_of_SomeD)
    then show ?thesis by (simp add: dom_update)
  qed
  show "fst ` set (st_modified_snapshots st')
           \<subseteq> fst ` set (st_modified_snapshots st) \<union> (fst ` set mi \<inter> {fst item})"
    using assms
  proof (cases rule: merge_snapshot_cases)
    case (existing ex M R)
    from existing(3) k have "fst ` set M
        \<subseteq> fst ` set (st_modified_snapshots st) \<union> (fst ` set mi \<inter> {fst item})"
      by blast
    with existing(2) show ?thesis by simp
  next
    case (new s1 M)
    from new(3) k have "fst ` set M
        \<subseteq> fst ` set (st_modified_snapshots st) \<union> (fst ` set mi \<inter> {fst item})"
      by blast
    with new(2) show ?thesis by simp
  qed
qed

lemma merge_snapshots_keys:
  "merge_snapshots X mi stored st items = Inr st'
   \<Longrightarrow> fst ` set (st_merged_snapshots st') = fst ` set items \<union> fst ` set (st_merged_snapshots st)
     \<and> fst ` set (st_modified_snapshots st')
           \<subseteq> fst ` set (st_modified_snapshots st) \<union> (fst ` set mi \<inter> fst ` set items)"
proof (induction items arbitrary: st)
  case Nil
  then show ?case by simp
next
  case (Cons item items)
  from Cons.prems obtain st1 where 1: "merge_snapshot X mi stored st item = Inr st1"
    and 2: "merge_snapshots X mi stored st1 items = Inr st'"
    by (auto split: sum.splits)
  from Cons.IH [OF 2] have a: "fst ` set (st_merged_snapshots st')
        = fst ` set items \<union> fst ` set (st_merged_snapshots st1)"
    and b: "fst ` set (st_modified_snapshots st')
           \<subseteq> fst ` set (st_modified_snapshots st1) \<union> (fst ` set mi \<inter> fst ` set items)"
    by blast+
  note c = merge_snapshot_keys(1) [OF 1] and d = merge_snapshot_keys(2) [OF 1]
  have "fst ` set (st_merged_snapshots st')
      = fst ` set (item # items) \<union> fst ` set (st_merged_snapshots st)"
    unfolding a c by auto
  moreover have "fst ` set (st_modified_snapshots st')
           \<subseteq> fst ` set (st_modified_snapshots st) \<union> (fst ` set mi \<inter> fst ` set (item # items))"
    using b d by (simp only: list.set image_insert) blast
  ultimately show ?case by blast
qed

lemma modified_info_keys:
  "fst ` set (modified_info env items) \<subseteq> fst ` set items \<inter> fst ` set (existing_info env)"
proof
  fix n
  assume "n \<in> fst ` set (modified_info env items)"
  then obtain info snapshot where "(n, snapshot) \<in> set items"
    and "map_of (existing_info env) n = Some info"
    by (fastforce simp: modified_info_def split: option.splits if_splits)
  then show "n \<in> fst ` set items \<inter> fst ` set (existing_info env)"
    by (force dest: map_of_SomeD)
qed


subsection \<open>The names of a diff\<close>

lemma items_of_keys: "fst ` set (items_of h snaps) = fst ` set snaps"
  by (force simp: items_of_def)

lemma create_cases:
  assumes "create X env_arg snaps reader h = Inr (d, h')"
  obtains st where
    "first_loop X reader env_arg snaps h = Inr st"
    "set_versions X (st_snapshot_remote_versions st) (st_store st) (st_new_snapshots st) = Inr h'"
    "d = \<lparr> environment = environment_name env_arg,
           added = fst ` set snaps - fst ` set (existing_info (env_of reader env_arg)),
           removed = fst ` set (existing_info (env_of reader env_arg)) - fst ` set snaps,
           modified_snapshots = st_modified_snapshots st,
           snapshots = st_merged_snapshots st,
           new_snapshots = st_new_snapshots st,
           previous_plan_id =
             (case env_of reader env_arg of None \<Rightarrow> None | Some e \<Rightarrow> Some (plan_id e)) \<rparr>"
  using assms by (auto simp: create_def Let_def split: sum.splits)

text \<open>
  Claim C2. In the diff that \<^verbatim>\<open>ContextDiff.create\<close> returns, for every environment, local
  snapshots and state reader, \<^verbatim>\<open>added\<close> and \<^verbatim>\<open>removed\<close> are disjoint, each of them is
  disjoint from the keys of \<^verbatim>\<open>modified_snapshots\<close>, and the keys of the merged \<^verbatim>\<open>snapshots\<close>
  are the keys of the local snapshots.
\<close>

theorem create_partitions_names:
  assumes "create X env_arg snaps reader h = Inr (d, h')"
  shows "added d \<inter> removed d = {}
       \<and> added d \<inter> fst ` set (modified_snapshots d) = {}
       \<and> removed d \<inter> fst ` set (modified_snapshots d) = {}
       \<and> fst ` set (snapshots d) = fst ` set snaps"
proof -
  from assms obtain st where 1: "first_loop X reader env_arg snaps h = Inr st"
    and d: "d = \<lparr> environment = environment_name env_arg,
           added = fst ` set snaps - fst ` set (existing_info (env_of reader env_arg)),
           removed = fst ` set (existing_info (env_of reader env_arg)) - fst ` set snaps,
           modified_snapshots = st_modified_snapshots st,
           snapshots = st_merged_snapshots st,
           new_snapshots = st_new_snapshots st,
           previous_plan_id =
             (case env_of reader env_arg of None \<Rightarrow> None | Some e \<Rightarrow> Some (plan_id e)) \<rparr>"
    by (rule create_cases)
  let ?env = "env_of reader env_arg"
  let ?mi = "modified_info ?env (items_of h snaps)"
  from 1 have "merge_snapshots X ?mi
      (get_snapshots reader (requested_ids ?env (items_of h snaps))) (initial_state h) snaps = Inr st"
    by (simp add: first_loop_def Let_def)
  from merge_snapshots_keys [OF this]
  have m: "fst ` set (st_merged_snapshots st) = fst ` set snaps"
    and k: "fst ` set (st_modified_snapshots st) \<subseteq> fst ` set ?mi"
    by (auto simp: initial_state_def)
  from k modified_info_keys [of ?env "items_of h snaps"]
  have "fst ` set (st_modified_snapshots st)
      \<subseteq> fst ` set snaps \<inter> fst ` set (existing_info ?env)"
    by (simp only: items_of_keys; blast)
  with m show ?thesis unfolding d by (simp only: ContextDiff.simps; blast)
qed

theorem create_partitions_names_witness:
  "create example_externals (EnvName ''prod'') example_snapshots example_reader example_store
     = Inr (example_diff, example_result_store)
   \<and> added example_diff = {''C''} \<and> removed example_diff = {''D''}
   \<and> fst ` set (modified_snapshots example_diff) = {''A'', ''B''}
   \<and> added example_diff \<inter> removed example_diff = {}
   \<and> added example_diff \<inter> fst ` set (modified_snapshots example_diff) = {}
   \<and> removed example_diff \<inter> fst ` set (modified_snapshots example_diff) = {}
   \<and> fst ` set (snapshots example_diff) = fst ` set example_snapshots"
  using create_partitions_names [OF example_run] example_run
  by (simp add: example_diff_def)
end
